theory Spec2Isabelle
  imports Main
begin

section \<open>Common types\<close>

text \<open>
  A chunk is the payload a stream hands to a listener. The scripts only pass chunks on
  (to \<open>console.log\<close>, to \<open>write\<close>, to \<open>send\<close>), so a chunk is modelled by its bytes.
\<close>

type_synonym chunk = string

section \<open>server.js: the request handler\<close>

text \<open>
  The callback given to \<open>http.createServer\<close> in server.js:
  \<^verbatim>\<open>
  (req, res) => {
    if (req.url !== "/") {
      return res.end();
    }
    const readableStream = fs.createReadStream("plain.txt");
    const writeableStream = fs.createWriteStream("output.txt");
    readableStream.on("data", (chunk) => {
      console.log(chunk);
      writeableStream.write(chunk);
    });
    res.end();
  }
  \<close>
  Everything the callback does is a call into the host (\<open>res\<close>, \<open>fs\<close>, the two streams,
  \<open>console\<close>). The model keeps one field per object the callback can reach and lets each
  call record what it was given:
  \<^item> \<open>res_ended\<close>, \<open>res_body\<close>: whether \<open>res.end\<close> was called, and the data handed to the
    response (by \<open>end\<close>; the callback never calls \<open>res.write\<close>);
  \<^item> \<open>read_streams\<close>, \<open>write_streams\<close>: the paths given to \<open>fs.createReadStream\<close> and
    \<open>fs.createWriteStream\<close>;
  \<^item> \<open>listening\<close>: whether the "data" listener is attached to \<open>readableStream\<close>;
  \<^item> \<open>console_out\<close>: the arguments of \<open>console.log\<close>;
  \<^item> \<open>written\<close>: the chunks given to \<open>writeableStream.write\<close>.
\<close>

record request =
  url :: string

record world =
  res_ended :: bool
  res_body :: "chunk list"
  read_streams :: "string list"
  write_streams :: "string list"
  listening :: bool
  console_out :: "chunk list"
  written :: "chunk list"

text \<open>\<open>res.end(data)\<close>; the argument is optional, and \<open>res.end()\<close> passes none.\<close>

definition res_end :: "chunk option \<Rightarrow> world \<Rightarrow> world" where
  "res_end d w =
     w\<lparr>res_ended := True,
       res_body := res_body w @ (case d of None \<Rightarrow> [] | Some c \<Rightarrow> [c])\<rparr>"

definition createReadStream :: "string \<Rightarrow> world \<Rightarrow> world" where
  "createReadStream path w = w\<lparr>read_streams := read_streams w @ [path]\<rparr>"

definition createWriteStream :: "string \<Rightarrow> world \<Rightarrow> world" where
  "createWriteStream path w = w\<lparr>write_streams := write_streams w @ [path]\<rparr>"

definition on_data :: "world \<Rightarrow> world" where
  "on_data w = w\<lparr>listening := True\<rparr>"

definition console_log :: "chunk \<Rightarrow> world \<Rightarrow> world" where
  "console_log c w = w\<lparr>console_out := console_out w @ [c]\<rparr>"

definition stream_write :: "chunk \<Rightarrow> world \<Rightarrow> world" where
  "stream_write c w = w\<lparr>written := written w @ [c]\<rparr>"

text \<open>The "data" listener of server.js: log the chunk, then write it.\<close>

definition server_listener :: "chunk \<Rightarrow> world \<Rightarrow> world" where
  "server_listener c w = stream_write c (console_log c w)"

text \<open>The request callback, statement by statement.\<close>

definition server_handler :: "request \<Rightarrow> world \<Rightarrow> world" where
  "server_handler req w =
     (if url req \<noteq> ''/'' then res_end None w
      else
        let w1 = createReadStream ''plain.txt'' w;
            w2 = createWriteStream ''output.txt'' w1;
            w3 = on_data w2
        in res_end None w3)"

text \<open>
  The server calls the callback with a response nothing has been written to, and the
  request's read stream does not exist before the callback creates it. What earlier
  requests left behind (opened files, written chunks, console output) stays as it is.
\<close>

definition incoming :: "world \<Rightarrow> world" where
  "incoming w = w\<lparr>res_ended := False, res_body := [], listening := False\<rparr>"

text \<open>
  The file copy runs after the callback has returned: the read stream emits one "data"
  event per chunk of plain.txt, and an event runs the listener if one is attached.
\<close>

fun emit_data :: "chunk list \<Rightarrow> world \<Rightarrow> world" where
  "emit_data [] w = w"
| "emit_data (c # cs) w = emit_data cs (if listening w then server_listener c w else w)"

section \<open>streams.js: the "data" listener\<close>

text \<open>
  streams.js declares four names at its top level and attaches a listener:
  \<^verbatim>\<open>
  const { Readable, Writable } = require("stream");
  const readableStream = new Readable({ highWaterMark: 100, read: () => {} });
  const writable = new Writable({ write: (s) => { console.log(...); } });
  readableStream.on("data", (chunk) => {
     res.send(chunk);
  });
  console.log(`space left-- ${readableStream.push("hey new data is pushed")}`);
  \<close>
  An identifier is looked up through the scopes that enclose its use, innermost first.
  For the body of the listener these are the listener's parameters, the top level of the
  file, and the names the host provides to every script (\<open>require\<close>, \<open>console\<close>, ...).
  The host is not part of the repository, so its names are a parameter \<open>host\<close>.
  A name found in no scope raises ReferenceError when it is evaluated.
\<close>

datatype js_error = ReferenceError string | Error string

text \<open>The parameter of the "data" listener.\<close>

definition listener_params :: "string list" where
  "listener_params = [''chunk'']"

text \<open>The names streams.js declares at its top level.\<close>

definition module_names :: "string list" where
  "module_names = [''Readable'', ''Writable'', ''readableStream'', ''writable'']"

text \<open>
  Every name declared anywhere in streams.js: the top level, the parameter \<open>s\<close> of the
  \<open>write\<close> function and the parameter \<open>chunk\<close> of the listener.
\<close>

definition declared_names :: "string list" where
  "declared_names = module_names @ [''s''] @ listener_params"

text \<open>The position of the innermost scope that binds \<open>x\<close>, if there is one.\<close>

fun resolve :: "string list list \<Rightarrow> string \<Rightarrow> nat option" where
  "resolve [] x = None"
| "resolve (scope # scopes) x =
     (if x \<in> set scope then Some 0 else map_option Suc (resolve scopes x))"

text \<open>
  What the listener does to \<open>res\<close> once it has found it: the call \<open>res.send(chunk)\<close>.
\<close>

datatype call = Send chunk

text \<open>
  The listener \<open>(chunk) => { res.send(chunk); }\<close>. Evaluating the call starts with
  the identifier \<open>res\<close>.
\<close>

definition streams_listener :: "string list \<Rightarrow> chunk \<Rightarrow> js_error + call" where
  "streams_listener host chunk =
     (case resolve [listener_params, module_names, host] ''res'' of
        None \<Rightarrow> Inl (ReferenceError ''res'')
      | Some _ \<Rightarrow> Inr (Send chunk))"

text \<open>
  The stream hands its chunks to the listener one by one; an exception the listener
  raises is not caught by the script and ends the delivery.
\<close>

fun streams_emit :: "string list \<Rightarrow> chunk list \<Rightarrow> js_error + call list" where
  "streams_emit host [] = Inr []"
| "streams_emit host (c # cs) =
     (case streams_listener host c of
        Inl e \<Rightarrow> Inl e
      | Inr k \<Rightarrow>
          (case streams_emit host cs of
             Inl e \<Rightarrow> Inl e
           | Inr ks \<Rightarrow> Inr (k # ks)))"

section \<open>The transform of the second server script\<close>

text \<open>
  The second version of the server pipes plain.txt through a Transform into output.txt:
  \<^verbatim>\<open>
  transform: (chunk, encoding, callback) => {
    const final = chunk.toString().replaceAll(/ipsum/gi, "geo");
    throw new Error("something is fishy!!!");
    callback(null, final);
  }
  \<close>
  The function either raises or calls \<open>callback(error, data)\<close>; the result is the
  exception, or the two arguments given to the callback. The string replacement is the
  host's; it is the parameter \<open>replaceAll\<close>.
\<close>

definition throw :: "js_error \<Rightarrow> js_error + unit" where
  "throw e = Inl e"

definition transform ::
  "(string \<Rightarrow> string) \<Rightarrow> chunk \<Rightarrow> js_error + (js_error option \<times> chunk)" where
  "transform replaceAll chunk =
     (let final = replaceAll chunk in
      case throw (Error ''something is fishy!!!'') of
        Inl e \<Rightarrow> Inl e
      | Inr _ \<Rightarrow> Inr (None, final))"

section \<open>Properties of the request handler\<close>

lemma emit_data_res_ended: "res_ended (emit_data cs w) = res_ended w"
  by (induction cs arbitrary: w)
     (simp_all add: server_listener_def stream_write_def console_log_def)

lemma emit_data_res_body: "res_body (emit_data cs w) = res_body w"
  by (induction cs arbitrary: w)
     (simp_all add: server_listener_def stream_write_def console_log_def)

lemma emit_data_streams:
  "read_streams (emit_data cs w) = read_streams w \<and>
   write_streams (emit_data cs w) = write_streams w"
  by (induction cs arbitrary: w)
     (simp_all add: server_listener_def stream_write_def console_log_def)

lemma emit_data_listening: "listening (emit_data cs w) = listening w"
  by (induction cs arbitrary: w)
     (simp_all add: server_listener_def stream_write_def console_log_def)

lemma emit_data_written:
  "written (emit_data cs w) = (if listening w then written w @ cs else written w)"
  by (induction cs arbitrary: w)
     (simp_all add: server_listener_def stream_write_def console_log_def)

lemma emit_data_console:
  "console_out (emit_data cs w) = (if listening w then console_out w @ cs else console_out w)"
  by (induction cs arbitrary: w)
     (simp_all add: server_listener_def stream_write_def console_log_def)

lemma server_handler_res:
  "res_ended (server_handler req w) \<and> res_body (server_handler req w) = res_body w"
  by (simp add: server_handler_def res_end_def createReadStream_def createWriteStream_def
      on_data_def Let_def)

lemma server_handler_other_url:
  "url req \<noteq> ''/'' \<Longrightarrow> server_handler req w = w\<lparr>res_ended := True\<rparr>"
  by (simp add: server_handler_def res_end_def)

lemma server_handler_root:
  "url req = ''/'' \<Longrightarrow>
   server_handler req w =
     w\<lparr>res_ended := True,
       read_streams := read_streams w @ [''plain.txt''],
       write_streams := write_streams w @ [''output.txt''],
       listening := True\<rparr>"
  by (simp add: server_handler_def res_end_def createReadStream_def createWriteStream_def
      on_data_def Let_def)

text \<open>
  Claim C10. For every request, the handler of server.js ends the response with an empty
  body, and it has done so when it returns, before any chunk of the file is read. When
  the url is not "/", no stream is created and nothing is written to output.txt, whatever
  the file holds. When the url is "/", the chunks of plain.txt are written to output.txt
  in the order they are read, while the response stays ended and empty: the response is
  the same for every content \<open>cs\<close> of the file.
\<close>

theorem server_handler_empty_response:
  "res_ended (server_handler req (incoming w)) \<and>
   res_body (server_handler req (incoming w)) = [] \<and>
   res_ended (emit_data cs (server_handler req (incoming w))) \<and>
   res_body (emit_data cs (server_handler req (incoming w))) = [] \<and>
   (url req \<noteq> ''/'' \<longrightarrow>
      read_streams (emit_data cs (server_handler req (incoming w))) = read_streams w \<and>
      write_streams (emit_data cs (server_handler req (incoming w))) = write_streams w \<and>
      written (emit_data cs (server_handler req (incoming w))) = written w) \<and>
   (url req = ''/'' \<longrightarrow>
      read_streams (emit_data cs (server_handler req (incoming w)))
        = read_streams w @ [''plain.txt''] \<and>
      write_streams (emit_data cs (server_handler req (incoming w)))
        = write_streams w @ [''output.txt''] \<and>
      written (emit_data cs (server_handler req (incoming w))) = written w @ cs)"
proof -
  let ?h = "server_handler req (incoming w)"
  have ended: "res_ended ?h" and body: "res_body ?h = []"
    using server_handler_res [of req "incoming w"] by (simp_all add: incoming_def)
  have other: "url req \<noteq> ''/'' \<Longrightarrow> ?h = (incoming w)\<lparr>res_ended := True\<rparr>"
    by (rule server_handler_other_url)
  have root: "url req = ''/'' \<Longrightarrow>
      ?h = (incoming w)\<lparr>res_ended := True,
             read_streams := read_streams (incoming w) @ [''plain.txt''],
             write_streams := write_streams (incoming w) @ [''output.txt''],
             listening := True\<rparr>"
    by (rule server_handler_root)
  show ?thesis
    using ended body other root
    by (auto simp add: emit_data_res_ended emit_data_res_body emit_data_streams
        emit_data_written incoming_def)
qed

theorem server_handler_empty_response_witness:
  "(let w0 = \<lparr>res_ended = False, res_body = [], read_streams = [], write_streams = [],
              listening = False, console_out = [], written = []\<rparr>;
        a = emit_data [''lorem '', ''ipsum''] (server_handler \<lparr>url = ''/''\<rparr> (incoming w0));
        b = emit_data [''lorem '', ''ipsum''] (server_handler \<lparr>url = ''/about''\<rparr> (incoming w0))
    in res_ended a \<and> res_body a = [] \<and> write_streams a = [''output.txt''] \<and>
       written a = [''lorem '', ''ipsum''] \<and>
       res_ended b \<and> res_body b = [] \<and> read_streams b = [] \<and> write_streams b = [] \<and>
       written b = [])"
  using server_handler_empty_response
    [of "\<lparr>url = ''/''\<rparr>"
        "\<lparr>res_ended = False, res_body = [], read_streams = [], write_streams = [],
          listening = False, console_out = [], written = []\<rparr>"
        "[''lorem '', ''ipsum'']"]
    server_handler_empty_response
    [of "\<lparr>url = ''/about''\<rparr>"
        "\<lparr>res_ended = False, res_body = [], read_streams = [], write_streams = [],
          listening = False, console_out = [], written = []\<rparr>"
        "[''lorem '', ''ipsum'']"]
  by (simp add: Let_def)

section \<open>Properties of the listener of streams.js\<close>

lemma res_not_declared: "''res'' \<notin> set declared_names"
  by (simp add: declared_names_def module_names_def listener_params_def)

lemma resolve_res:
  "resolve [listener_params, module_names, host] ''res''
     = (if ''res'' \<in> set host then Some 2 else None)"
  by (simp add: module_names_def listener_params_def)

lemma streams_listener_unbound:
  "''res'' \<notin> set host \<Longrightarrow> streams_listener host c = Inl (ReferenceError ''res'')"
  unfolding streams_listener_def resolve_res by simp

lemma streams_listener_bound:
  "''res'' \<in> set host \<Longrightarrow> streams_listener host c = Inr (Send c)"
  unfolding streams_listener_def resolve_res by simp

text \<open>
  Claim C8. No declaration of streams.js binds \<open>res\<close>. With a host that provides no
  name \<open>res\<close> either, the listener raises ReferenceError for every chunk it is given, and
  delivering one chunk or more ends in that error.
\<close>

theorem streams_listener_reference_error:
  assumes "''res'' \<notin> set host"
  shows "''res'' \<notin> set declared_names \<and>
         streams_listener host chunk = Inl (ReferenceError ''res'') \<and>
         (cs \<noteq> [] \<longrightarrow> streams_emit host cs = Inl (ReferenceError ''res''))"
proof -
  have one: "streams_listener host c = Inl (ReferenceError ''res'')" for c
    using assms by (rule streams_listener_unbound)
  have many: "streams_emit host cs = Inl (ReferenceError ''res'')" if "cs \<noteq> []"
  proof (cases cs)
    case Nil
    with that show ?thesis by simp
  next
    case (Cons c cs')
    then show ?thesis by (simp add: one)
  qed
  from res_not_declared one many show ?thesis by blast
qed

theorem streams_listener_reference_error_witness:
  "''res'' \<notin> set [''require'', ''module'', ''exports'', ''__filename'', ''__dirname'',
                       ''console'', ''process'', ''globalThis'', ''Buffer''] \<and>
   streams_listener [''require'', ''module'', ''exports'', ''__filename'', ''__dirname'',
                     ''console'', ''process'', ''globalThis'', ''Buffer'']
       ''hey new data is pushed'' = Inl (ReferenceError ''res'') \<and>
   [''hey new data is pushed''] \<noteq> [] \<and>
   streams_emit [''require'', ''module'', ''exports'', ''__filename'', ''__dirname'',
                 ''console'', ''process'', ''globalThis'', ''Buffer'']
       [''hey new data is pushed''] = Inl (ReferenceError ''res'')"
proof -
  have h: "''res'' \<notin> set [''require'', ''module'', ''exports'', ''__filename'',
                               ''__dirname'', ''console'', ''process'', ''globalThis'',
                               ''Buffer'']"
    by simp
  show ?thesis
    using h streams_listener_reference_error
      [OF h, of "''hey new data is pushed''" "[''hey new data is pushed'']"]
    by simp
qed

section \<open>The transform raises on every chunk\<close>

lemma transform_throws:
  "transform replaceAll chunk = Inl (Error ''something is fishy!!!'')"
  by (simp add: transform_def throw_def)

end
